theory Spec2Isabelle
  imports Complex_Main "HOL-Library.Multiset"
begin

section \<open>Data model (nearby.h)\<close>

text \<open>
  Coordinates and distances are C++ doubles in the source; they are modelled as
  real numbers, so rounding is not part of the model.  \<open>EPSILON\<close> is the constant
  \<open>1e-3\<close> and \<open>hypot\<close> is the Euclidean norm computed by the C library.
\<close>

definition EPSILON :: real where
  "EPSILON = 1 / 1000"

definition compareDouble :: "real \<Rightarrow> real \<Rightarrow> bool" where
  "compareDouble a b \<longleftrightarrow> a - b > EPSILON"

definition hypot :: "real \<Rightarrow> real \<Rightarrow> real" where
  "hypot a b = sqrt (a\<^sup>2 + b\<^sup>2)"

text \<open>
  Class \<open>Topic\<close>: the id, the ids of the questions that list the topic, and the
  two-element coordinate vector, kept here as its two components.
\<close>

record Topic =
  tid :: int
  questionIds :: "int list"
  coordX :: real
  coordY :: real

definition coordinateAt :: "Topic \<Rightarrow> nat \<Rightarrow> real" where
  "coordinateAt topic dimension = (if dimension = 0 then coordX topic else coordY topic)"

text \<open>The global \<open>queryPosition\<close> vector, passed explicitly as a pair.\<close>

type_synonym position = "real \<times> real"

definition queryAt :: "position \<Rightarrow> nat \<Rightarrow> real" where
  "queryAt queryPosition dimension =
     (if dimension = 0 then fst queryPosition else snd queryPosition)"

definition topicDist :: "position \<Rightarrow> Topic \<Rightarrow> real" where
  "topicDist queryPosition topic =
     hypot (coordX topic - fst queryPosition) (coordY topic - snd queryPosition)"

text \<open>
  Class \<open>Node\<close>: a null pointer, or a node owning a topic and its left and right
  children.
\<close>

datatype Node = Null | Node Topic Node Node

fun topicsOf :: "Node \<Rightarrow> Topic list" where
  "topicsOf Null = []"
| "topicsOf (Node topic left right) = topic # topicsOf left @ topicsOf right"

section \<open>The registries\<close>

text \<open>
  \<open>unordered_map<int, Topic> topics\<close>, read with \<open>operator[]\<close>: a missing key yields
  a default-constructed topic (id 0, no questions, coordinate (0, 0)).  The entry
  that \<open>operator[]\<close> creates on such a read holds this same default value, so later
  reads are unaffected and the registry is modelled as read-only.
\<close>

definition defaultTopic :: Topic where
  "defaultTopic = \<lparr>tid = 0, questionIds = [], coordX = 0, coordY = 0\<rparr>"

definition topicsAt :: "(int \<rightharpoonup> Topic) \<Rightarrow> int \<Rightarrow> Topic" where
  "topicsAt topics i = (case topics i of None \<Rightarrow> defaultTopic | Some t \<Rightarrow> t)"

text \<open>
  \<open>closestQuestionTopic[id]\<close> as the comparators read it: 0 for a missing key.
\<close>

definition closestAt :: "(int \<rightharpoonup> int) \<Rightarrow> int \<Rightarrow> int" where
  "closestAt closestQuestionTopic i =
     (case closestQuestionTopic i of None \<Rightarrow> 0 | Some t \<Rightarrow> t)"

section \<open>Ordered sets\<close>

text \<open>
  A \<open>std::set\<close> is modelled by the list of its elements in iteration order.
  \<open>set_insert\<close> walks to the first element the new one is less than and places it
  there; an element equivalent to one already present (neither is less than the
  other) is not inserted.  \<open>set_erase\<close> is erase by key: it stops at the first
  element that is not less than the key and removes it when the key is not less
  than it either.  For a comparator that is a strict weak order on the elements
  this is the behaviour the C++ standard prescribes.

  The two comparators of this program are strict weak orders where equality up
  to \<open>EPSILON\<close> is transitive on the distances compared.  Where it is not, the
  standard leaves the behaviour of \<open>std::set\<close> undefined: what an implementation
  does depends on the shape of its search tree, which the list does not record
  (three topics at distances 0, 0.0006 and 0.0012 with ids 1, 2 and 3, inserted
  in this order, end up as 2, 1, 3 in the tree of libstdc++ and as 3, 2, 1 in
  the list).
  The theorems about the size, the content and the order of the result sets
  therefore assume that transitivity.
  The evaluations at concrete inputs without it are at inputs on which the
  red-black tree of libstdc++ and the list hold the same sequence after every
  operation; the comparisons that decide this are traced where they occur.
\<close>

fun set_insert :: "('a \<Rightarrow> 'a \<Rightarrow> bool) \<Rightarrow> 'a \<Rightarrow> 'a list \<Rightarrow> 'a list" where
  "set_insert lt x [] = [x]"
| "set_insert lt x (y # ys) =
     (if lt x y then x # y # ys
      else if lt y x then y # set_insert lt x ys
      else y # ys)"

fun set_erase :: "('a \<Rightarrow> 'a \<Rightarrow> bool) \<Rightarrow> 'a \<Rightarrow> 'a list \<Rightarrow> 'a list" where
  "set_erase lt x [] = []"
| "set_erase lt x (y # ys) =
     (if lt y x then y # set_erase lt x ys
      else if lt x y then y # ys
      else ys)"

text \<open>\<open>operator<\<close> on topics, for the active query position.\<close>

definition topic_less :: "position \<Rightarrow> Topic \<Rightarrow> Topic \<Rightarrow> bool" where
  "topic_less queryPosition topic1 topic2 =
     (let dist1 = hypot (coordX topic1 - fst queryPosition) (coordY topic1 - snd queryPosition);
          dist2 = hypot (coordX topic2 - fst queryPosition) (coordY topic2 - snd queryPosition)
      in if compareDouble dist1 dist2 then False
         else if compareDouble dist2 dist1 then True
         else tid topic1 > tid topic2)"

text \<open>
  \<open>operator<\<close> on questions.  A question is represented by its id: the comparator
  and \<open>printSet\<close> read nothing else of it, and \<open>inputQuestion\<close> stores every
  question under its own id.
\<close>

definition question_less ::
  "(int \<rightharpoonup> Topic) \<Rightarrow> position \<Rightarrow> (int \<rightharpoonup> int) \<Rightarrow> int \<Rightarrow> int \<Rightarrow> bool" where
  "question_less topics queryPosition closestQuestionTopic question1 question2 =
     (let topicAssociated1 = closestAt closestQuestionTopic question1;
          topicAssociated2 = closestAt closestQuestionTopic question2;
          dist1 = hypot (coordX (topicsAt topics topicAssociated1) - fst queryPosition)
                        (coordY (topicsAt topics topicAssociated1) - snd queryPosition);
          dist2 = hypot (coordX (topicsAt topics topicAssociated2) - fst queryPosition)
                        (coordY (topicsAt topics topicAssociated2) - snd queryPosition)
      in if compareDouble dist1 dist2 then False
         else if compareDouble dist2 dist1 then True
         else question1 > question2)"

section \<open>The spatial index\<close>

text \<open>\<open>KDTree::insert(currentNode, depth, topic)\<close> and its one-argument wrapper.\<close>

fun KDTree_insert :: "Node \<Rightarrow> nat \<Rightarrow> Topic \<Rightarrow> Node" where
  "KDTree_insert Null depth topic = Node topic Null Null"
| "KDTree_insert (Node current left right) depth topic =
     (let depthParity = depth mod 2
      in if coordinateAt topic depthParity < coordinateAt current depthParity
         then Node current (KDTree_insert left (depth + 1) topic) right
         else Node current left (KDTree_insert right (depth + 1) topic))"

definition KDTree_insert_root :: "Node \<Rightarrow> Topic \<Rightarrow> Node" where
  "KDTree_insert_root rootNode topic = KDTree_insert rootNode 0 topic"

text \<open>The build loop of \<open>solve\<close>: the topics are inserted one by one, in input order.\<close>

definition buildIndex :: "Topic list \<Rightarrow> Node" where
  "buildIndex ts = foldl KDTree_insert_root Null ts"

text \<open>
  The trimming loop of \<open>kNNTopics\<close>.  Erasing \<open>prev(cend())\<close> of an empty set is
  undefined behaviour; it is the result \<open>None\<close>.
\<close>

function trimTopics :: "int \<Rightarrow> Topic list \<Rightarrow> Topic list option" where
  "trimTopics numResults topicSet =
     (if int (length topicSet) > numResults
      then (if topicSet = [] then None else trimTopics numResults (butlast topicSet))
      else Some topicSet)"
  by pat_completeness auto
termination
  by (relation "measure (\<lambda>(numResults, topicSet). length topicSet)") auto

declare trimTopics.simps [simp del]

text \<open>\<open>KDTree::kNNTopics(currentNode, depth, queryPosition)\<close>, threading \<open>topicSet\<close>.\<close>

fun kNNTopics ::
  "int \<Rightarrow> Node \<Rightarrow> nat \<Rightarrow> position \<Rightarrow> Topic list \<Rightarrow> Topic list option" where
  "kNNTopics numResults Null depth queryPosition topicSet = Some topicSet"
| "kNNTopics numResults (Node topic left right) depth queryPosition topicSet =
     (case trimTopics numResults (set_insert (topic_less queryPosition) topic topicSet) of
        None \<Rightarrow> None
      | Some trimmed \<Rightarrow>
         (case kNNTopics numResults
                 (if queryAt queryPosition (depth mod 2) < coordinateAt topic (depth mod 2)
                  then left else right)
                 (depth + 1) queryPosition trimmed of
            None \<Rightarrow> None
          | Some afterFirst \<Rightarrow>
             if int (length afterFirst) < numResults
             then kNNTopics numResults
                    (if queryAt queryPosition (depth mod 2) < coordinateAt topic (depth mod 2)
                     then right else left)
                    (depth + 1) queryPosition afterFirst
             else if afterFirst \<noteq> []
             then (let iter = last afterFirst;
                       dist1 = \<bar>queryAt queryPosition (depth mod 2)
                                 - coordinateAt topic (depth mod 2)\<bar>;
                       dist2 = hypot (fst queryPosition - coordX iter)
                                     (snd queryPosition - coordY iter)
                   in if dist1 < dist2
                      then kNNTopics numResults
                             (if queryAt queryPosition (depth mod 2)
                                   < coordinateAt topic (depth mod 2)
                              then right else left)
                             (depth + 1) queryPosition afterFirst
                      else Some afterFirst)
             else Some afterFirst))"

text \<open>
  The per-question body of the loop over the visited topic's question ids in
  \<open>kNNQuestions\<close>.  The state is the pair of \<open>questionSet\<close> and
  \<open>closestQuestionTopic\<close>; the erase runs with the mapping as it is before the
  assignment to \<open>iter->second\<close>, the insert with the mapping after it.
\<close>

type_synonym questionState = "int list \<times> (int \<rightharpoonup> int)"

definition updateQuestion ::
  "(int \<rightharpoonup> Topic) \<Rightarrow> position \<Rightarrow> Topic \<Rightarrow> questionState \<Rightarrow> int \<Rightarrow> questionState" where
  "updateQuestion topics queryPosition topic state questionIndex =
     (case state of (questionSet, closestQuestionTopic) \<Rightarrow>
        (case closestQuestionTopic questionIndex of
           None \<Rightarrow>
             (let closest' = closestQuestionTopic(questionIndex \<mapsto> tid topic)
              in (set_insert (question_less topics queryPosition closest')
                    questionIndex questionSet, closest'))
         | Some topicId \<Rightarrow>
             (let dist1 = hypot (coordX (topicsAt topics topicId) - fst queryPosition)
                                (coordY (topicsAt topics topicId) - snd queryPosition);
                  dist2 = hypot (coordX (topicsAt topics (tid topic)) - fst queryPosition)
                                (coordY (topicsAt topics (tid topic)) - snd queryPosition)
              in if compareDouble dist1 dist2 \<or>
                    (\<bar>dist1 - dist2\<bar> \<le> EPSILON \<and> tid topic > topicId)
                 then (let erased = set_erase (question_less topics queryPosition
                                       closestQuestionTopic) questionIndex questionSet;
                           closest' = closestQuestionTopic(questionIndex \<mapsto> tid topic)
                       in (set_insert (question_less topics queryPosition closest')
                             questionIndex erased, closest'))
                 else (questionSet, closestQuestionTopic))))"

definition updateQuestions ::
  "(int \<rightharpoonup> Topic) \<Rightarrow> position \<Rightarrow> Topic \<Rightarrow> questionState \<Rightarrow> questionState" where
  "updateQuestions topics queryPosition topic state =
     foldl (updateQuestion topics queryPosition topic) state
       (questionIds (topicsAt topics (tid topic)))"

text \<open>
  The trimming loop of \<open>kNNQuestions\<close>: the last question leaves the mapping and
  then the set.  \<open>None\<close> is undefined behaviour, as in \<open>trimTopics\<close>.
\<close>

function trimQuestions :: "int \<Rightarrow> questionState \<Rightarrow> questionState option" where
  "trimQuestions numResults (questionSet, closestQuestionTopic) =
     (if int (length questionSet) > numResults
      then (if questionSet = [] then None
            else trimQuestions numResults
                   (butlast questionSet, closestQuestionTopic(last questionSet := None)))
      else Some (questionSet, closestQuestionTopic))"
  by pat_completeness auto
termination
  by (relation "measure (\<lambda>(numResults, questionSet, closest). length questionSet)") auto

declare trimQuestions.simps [simp del]

text \<open>
  \<open>KDTree::kNNQuestions(currentNode, depth, queryPosition)\<close>, threading
  \<open>questionSet\<close> and \<open>closestQuestionTopic\<close>.
\<close>

fun kNNQuestions ::
  "(int \<rightharpoonup> Topic) \<Rightarrow> int \<Rightarrow> Node \<Rightarrow> nat \<Rightarrow> position \<Rightarrow> questionState
     \<Rightarrow> questionState option" where
  "kNNQuestions topics numResults Null depth queryPosition state = Some state"
| "kNNQuestions topics numResults (Node topic left right) depth queryPosition state =
     (case trimQuestions numResults (updateQuestions topics queryPosition topic state) of
        None \<Rightarrow> None
      | Some trimmed \<Rightarrow>
         (case kNNQuestions topics numResults
                 (if queryAt queryPosition (depth mod 2) < coordinateAt topic (depth mod 2)
                  then left else right)
                 (depth + 1) queryPosition trimmed of
            None \<Rightarrow> None
          | Some afterFirst \<Rightarrow>
             if int (length (fst afterFirst)) < numResults
             then kNNQuestions topics numResults
                    (if queryAt queryPosition (depth mod 2) < coordinateAt topic (depth mod 2)
                     then right else left)
                    (depth + 1) queryPosition afterFirst
             else if fst afterFirst \<noteq> []
             then (let iter = last (fst afterFirst);
                       closestTopicId = closestAt (snd afterFirst) iter;
                       dist1 = \<bar>queryAt queryPosition (depth mod 2)
                                 - coordinateAt topic (depth mod 2)\<bar>;
                       dist2 = hypot (fst queryPosition - coordX (topicsAt topics closestTopicId))
                                     (snd queryPosition - coordY (topicsAt topics closestTopicId))
                   in if dist1 < dist2
                      then kNNQuestions topics numResults
                             (if queryAt queryPosition (depth mod 2)
                                   < coordinateAt topic (depth mod 2)
                              then right else left)
                             (depth + 1) queryPosition afterFirst
                      else Some afterFirst)
             else Some afterFirst))"

section \<open>The query loop of solve\<close>

text \<open>
  The process-wide containers that survive from one query to the next, and one
  query record of the input.  The index and the registries are fixed once the
  build phase is over.
\<close>

record SolverState =
  topicSet :: "Topic list"
  questionSet :: "int list"
  closestQuestionTopic :: "int \<rightharpoonup> int"

record Query =
  queryType :: char
  numResults :: int
  queryPosition :: position

text \<open>\<open>printSet\<close>: the ids of the set in iteration order, as one output line.\<close>

definition printSet :: "('a \<Rightarrow> int) \<Rightarrow> 'a list \<Rightarrow> int list" where
  "printSet getId itemSet = map getId itemSet"

text \<open>
  One iteration of the query loop.  The result is \<open>None\<close> when the traversal runs
  into undefined behaviour; otherwise it is the new state together with the line
  printed, if any (no line is printed for an unknown query type).
\<close>

definition runQuery ::
  "Node \<Rightarrow> (int \<rightharpoonup> Topic) \<Rightarrow> SolverState \<Rightarrow> Query \<Rightarrow> (SolverState \<times> int list option) option" where
  "runQuery kdtree topics st query =
     (if queryType query = CHR ''t'' then
        (case kNNTopics (numResults query) kdtree 0 (queryPosition query) [] of
           None \<Rightarrow> None
         | Some ts \<Rightarrow> Some (st\<lparr>topicSet := ts\<rparr>, Some (printSet tid ts)))
      else if queryType query = CHR ''q'' then
        (case kNNQuestions topics (numResults query) kdtree 0 (queryPosition query)
                ([], Map.empty) of
           None \<Rightarrow> None
         | Some (qs, closest) \<Rightarrow>
             Some (st\<lparr>questionSet := qs, closestQuestionTopic := closest\<rparr>,
                   Some (printSet id qs)))
      else Some (st, None))"

section \<open>Specification-level notions\<close>

text \<open>
  The partition invariant of the index: at a node of the given depth, every topic
  of the left subtree is strictly below the node's topic on the splitting axis
  (x at even depth, y at odd depth), every topic of the right subtree is at or
  above it, and both subtrees satisfy the invariant one level down.
\<close>

fun kdInvariant :: "Node \<Rightarrow> nat \<Rightarrow> bool" where
  "kdInvariant Null depth = True"
| "kdInvariant (Node topic left right) depth =
     ((\<forall>t \<in> set (topicsOf left).
          coordinateAt t (depth mod 2) < coordinateAt topic (depth mod 2)) \<and>
      (\<forall>t \<in> set (topicsOf right).
          coordinateAt topic (depth mod 2) \<le> coordinateAt t (depth mod 2)) \<and>
      kdInvariant left (depth + 1) \<and> kdInvariant right (depth + 1))"

text \<open>
  The order both comparators implement, on pairs of a distance and an id: the
  first key precedes the second when it is nearer by more than \<open>EPSILON\<close>, or when
  the distances are within \<open>EPSILON\<close> of each other and its id is the larger one.
\<close>

definition keyLess :: "real \<times> int \<Rightarrow> real \<times> int \<Rightarrow> bool" where
  "keyLess a b \<longleftrightarrow>
     fst b - fst a > EPSILON \<or> (\<bar>fst a - fst b\<bar> \<le> EPSILON \<and> snd a > snd b)"


text \<open>
  The two children of a node in the order the traversals enter them, and the
  perpendicular distance from the query position to the node's splitting plane
  (\<open>dist1\<close> in the source).
\<close>

definition firstNode :: "position \<Rightarrow> nat \<Rightarrow> Topic \<Rightarrow> Node \<Rightarrow> Node \<Rightarrow> Node" where
  "firstNode qp depth topic left right =
     (if queryAt qp (depth mod 2) < coordinateAt topic (depth mod 2)
      then left else right)"

definition secondNode :: "position \<Rightarrow> nat \<Rightarrow> Topic \<Rightarrow> Node \<Rightarrow> Node \<Rightarrow> Node" where
  "secondNode qp depth topic left right =
     (if queryAt qp (depth mod 2) < coordinateAt topic (depth mod 2)
      then right else left)"

definition planeDist :: "position \<Rightarrow> nat \<Rightarrow> Topic \<Rightarrow> real" where
  "planeDist qp depth topic =
     \<bar>queryAt qp (depth mod 2) - coordinateAt topic (depth mod 2)\<bar>"

text \<open>
  Distances read through the registry, as \<open>kNNQuestions\<close> and the question
  comparator compute them: of the registry's topic with a given id, and of the
  topic recorded for a question in \<open>closestQuestionTopic\<close>.
\<close>

definition registryDist :: "(int \<rightharpoonup> Topic) \<Rightarrow> position \<Rightarrow> int \<Rightarrow> real" where
  "registryDist topics qp i = topicDist qp (topicsAt topics i)"

definition questionDist :: "(int \<rightharpoonup> Topic) \<Rightarrow> position \<Rightarrow> (int \<rightharpoonup> int) \<Rightarrow> int \<Rightarrow> real" where
  "questionDist topics qp closest q = registryDist topics qp (closestAt closest q)"




text \<open>
  The spec's reference computation, following its words: the distance to every
  topic is computed directly and the first K of the set ordered by the same
  comparator are selected; for questions, every topic updates the best topic of
  each of its questions, without pruning or eviction, and the first K are selected.
\<close>

definition bruteForceTopics :: "position \<Rightarrow> int \<Rightarrow> Topic list \<Rightarrow> Topic list" where
  "bruteForceTopics qp k ts =
     take (nat k) (foldl (\<lambda>s t. set_insert (topic_less qp) t s) [] ts)"

definition bruteForceQuestions ::
  "(int \<rightharpoonup> Topic) \<Rightarrow> position \<Rightarrow> int \<Rightarrow> Topic list \<Rightarrow> int list" where
  "bruteForceQuestions topics qp k ts =
     take (nat k) (fst (foldl (\<lambda>st t. updateQuestions topics qp t st) ([], Map.empty) ts))"

text \<open>
  The states of a question query after each per-node processing step: the
  cleared state the driver starts from, and every state obtained from one of them
  by updating the questions of a topic of the index and trimming to K.
\<close>

inductive queryReaches ::
  "(int \<rightharpoonup> Topic) \<Rightarrow> int \<Rightarrow> position \<Rightarrow> Node \<Rightarrow> questionState \<Rightarrow> bool"
  for topics :: "int \<rightharpoonup> Topic" and k :: int and qp :: position and kdtree :: Node where
  start: "queryReaches topics k qp kdtree ([], Map.empty)"
| visit: "queryReaches topics k qp kdtree st \<Longrightarrow> topic \<in> set (topicsOf kdtree) \<Longrightarrow>
          trimQuestions k (updateQuestions topics qp topic st) = Some st1 \<Longrightarrow>
          queryReaches topics k qp kdtree st1"


text \<open>
  Bookkeeping for the traversal proofs: two sets of records share no value of a
  field; the result set \<open>s'\<close> of a bounded traversal over the elements \<open>X\<close> from the
  set \<open>s\<close> with capacity \<open>k\<close>.
\<close>

definition apartOn :: "('a \<Rightarrow> 'b) \<Rightarrow> 'a set \<Rightarrow> 'a set \<Rightarrow> bool" where
  "apartOn f A B \<longleftrightarrow> (\<forall>a\<in>A. \<forall>b\<in>B. f a \<noteq> f b)"





section \<open>Building the index\<close>

lemma set_topicsOf_insert:
  "set (topicsOf (KDTree_insert n depth topic)) = insert topic (set (topicsOf n))"
  by (induction n arbitrary: depth) (auto simp: Let_def)

lemma mset_topicsOf_insert:
  "mset (topicsOf (KDTree_insert n depth topic)) = add_mset topic (mset (topicsOf n))"
  by (induction n arbitrary: depth) (auto simp: Let_def)

lemma kdInvariant_insert:
  "kdInvariant n depth \<Longrightarrow> kdInvariant (KDTree_insert n depth topic) depth"
  by (induction n arbitrary: depth) (auto simp: Let_def set_topicsOf_insert)

lemma foldl_insert_inv:
  "kdInvariant n 0 \<Longrightarrow> kdInvariant (foldl KDTree_insert_root n ts) 0"
  by (induction ts arbitrary: n) (auto simp: KDTree_insert_root_def kdInvariant_insert)

lemma foldl_insert_mset:
  "mset (topicsOf (foldl KDTree_insert_root n ts)) = mset (topicsOf n) + mset ts"
  by (induction ts arbitrary: n) (auto simp: KDTree_insert_root_def mset_topicsOf_insert)

text \<open>
  C7: in every tree built by successive insertions from the empty index, each
  node's left subtree holds only topics strictly below the node on its splitting
  axis (x at even depth, y at odd depth) and its right subtree only topics at or
  above it; every inserted topic is retained as a node of its own, so topics at
  one coordinate are all kept.
\<close>

theorem insert_partition_invariant:
  "kdInvariant (buildIndex ts) 0 \<and> mset (topicsOf (buildIndex ts)) = mset ts"
  by (simp add: buildIndex_def foldl_insert_inv foldl_insert_mset)

theorem insert_partition_invariant_witness:
  "buildIndex [\<lparr>tid = 5, questionIds = [], coordX = 0, coordY = 0\<rparr>,
               \<lparr>tid = 7, questionIds = [], coordX = 0, coordY = 0\<rparr>,
               \<lparr>tid = 9, questionIds = [], coordX = -1, coordY = 2\<rparr>]
     = Node \<lparr>tid = 5, questionIds = [], coordX = 0, coordY = 0\<rparr>
         (Node \<lparr>tid = 9, questionIds = [], coordX = -1, coordY = 2\<rparr> Null Null)
         (Node \<lparr>tid = 7, questionIds = [], coordX = 0, coordY = 0\<rparr> Null Null)
   \<and> kdInvariant
        (Node \<lparr>tid = 5, questionIds = [], coordX = 0, coordY = 0\<rparr>
           (Node \<lparr>tid = 9, questionIds = [], coordX = -1, coordY = 2\<rparr> Null Null)
           (Node \<lparr>tid = 7, questionIds = [], coordX = 0, coordY = 0\<rparr> Null Null)) 0"
  using insert_partition_invariant
    [of "[\<lparr>tid = 5, questionIds = [], coordX = 0, coordY = 0\<rparr>,
          \<lparr>tid = 7, questionIds = [], coordX = 0, coordY = 0\<rparr>,
          \<lparr>tid = 9, questionIds = [], coordX = -1, coordY = 2\<rparr>]"]
  by (simp add: buildIndex_def KDTree_insert_root_def coordinateAt_def)

section \<open>The traversals return\<close>

lemma trimTopics_nonneg:
  "0 \<le> k \<Longrightarrow> trimTopics k s = Some (take (nat k) s)"
proof (induction k s rule: trimTopics.induct)
  case (1 k s)
  show ?case
  proof (cases "int (length s) > k")
    case True
    with 1 have ne: "s \<noteq> []" by auto
    have "trimTopics k s = trimTopics k (butlast s)"
      using True ne by (subst trimTopics.simps) simp
    also have "\<dots> = Some (take (nat k) (butlast s))"
      using 1 True ne by simp
    also have "take (nat k) (butlast s) = take (nat k) s"
      using True 1(2) by (intro take_butlast) linarith
    finally show ?thesis .
  next
    case False
    then show ?thesis by (subst trimTopics.simps) simp
  qed
qed

lemma trimQuestions_nonneg:
  "0 \<le> k \<Longrightarrow> \<exists>m'. trimQuestions k (s, m) = Some (take (nat k) s, m')"
proof (induction k "(s, m)" arbitrary: s m rule: trimQuestions.induct)
  case (1 k s m)
  show ?case
  proof (cases "int (length s) > k")
    case True
    with 1(2) have ne: "s \<noteq> []" by auto
    have "trimQuestions k (s, m) = trimQuestions k (butlast s, m(last s := None))"
      using True ne by (subst trimQuestions.simps) simp
    moreover obtain m' where "trimQuestions k (butlast s, m(last s := None)) = Some (take (nat k) (butlast s), m')"
      using 1 True ne by blast
    moreover have "take (nat k) (butlast s) = take (nat k) s"
      using True 1(2) by (intro take_butlast) linarith
    ultimately show ?thesis by simp
  next
    case False
    then show ?thesis by (subst trimQuestions.simps) simp
  qed
qed

lemma kNNTopics_total:
  "0 \<le> k \<Longrightarrow> \<exists>s'. kNNTopics k n depth qp s = Some s'"
proof (induction n arbitrary: depth s)
  case Null
  then show ?case by simp
next
  case (Node topic left right)
  obtain s1 where s1: "trimTopics k (set_insert (topic_less qp) topic s) = Some s1"
    using trimTopics_nonneg[OF Node.prems] by blast
  let ?c = "queryAt qp (depth mod 2) < coordinateAt topic (depth mod 2)"
  obtain s2 where s2: "kNNTopics k (if ?c then left else right) (depth + 1) qp s1 = Some s2"
    using Node.IH(1)[OF Node.prems, of "depth + 1"] Node.IH(2)[OF Node.prems, of "depth + 1"]
    by (cases ?c) (simp_all, blast+)
  obtain s3 where s3: "kNNTopics k (if ?c then right else left) (depth + 1) qp s2 = Some s3"
    using Node.IH(1)[OF Node.prems, of "depth + 1"] Node.IH(2)[OF Node.prems, of "depth + 1"]
    by (cases ?c) (simp_all, blast+)
  show ?case
    using s1 s2 s3 by (simp add: Let_def)
qed

lemma kNNQuestions_total:
  "0 \<le> k \<Longrightarrow> \<exists>s'. kNNQuestions topics k n depth qp st = Some s'"
proof (induction n arbitrary: depth st)
  case Null
  then show ?case by simp
next
  case (Node topic left right)
  obtain s1 where s1: "trimQuestions k (updateQuestions topics qp topic st) = Some s1"
    using trimQuestions_nonneg[OF Node.prems] by (cases "updateQuestions topics qp topic st") metis
  let ?c = "queryAt qp (depth mod 2) < coordinateAt topic (depth mod 2)"
  obtain s2 where s2: "kNNQuestions topics k (if ?c then left else right) (depth + 1) qp s1 = Some s2"
    using Node.IH(1)[OF Node.prems, of "depth + 1"] Node.IH(2)[OF Node.prems, of "depth + 1"]
    by (cases ?c) (simp_all, blast+)
  obtain s3 where s3: "kNNQuestions topics k (if ?c then right else left) (depth + 1) qp s2 = Some s3"
    using Node.IH(1)[OF Node.prems, of "depth + 1"] Node.IH(2)[OF Node.prems, of "depth + 1"]
    by (cases ?c) (simp_all, blast+)
  show ?case
    using s1 s2 s3 by (simp add: Let_def)
qed

lemma hypot_commute: "hypot (a - b) (c - d) = hypot (b - a) (d - c)"
  by (simp add: hypot_def power2_commute)

lemma hypot_axis [simp]: "hypot a 0 = \<bar>a\<bar>" "hypot 0 a = \<bar>a\<bar>"
  by (simp_all add: hypot_def)

text \<open>
  The definitions a concrete query is evaluated with.
\<close>

lemmas eval_simps = buildIndex_def KDTree_insert_root_def coordinateAt_def queryAt_def
  trimTopics.simps trimQuestions.simps topic_less_def question_less_def compareDouble_def
  EPSILON_def updateQuestions_def updateQuestion_def topicsAt_def closestAt_def Let_def
  firstNode_def secondNode_def planeDist_def topicDist_def registryDist_def questionDist_def
  printSet_def

text \<open>
  C8: against a fixed index, a query with a non-negative K returns, and running
  the same query again on the state it leaves behind prints the same line (and
  leaves the same state); more generally, whenever a query returns, repeating it
  returns the same output.
\<close>

theorem query_idempotent:
  "(0 \<le> numResults query \<longrightarrow>
      (\<exists>st1 out. runQuery kdtree topics st query = Some (st1, out))) \<and>
   (\<forall>st1 out. runQuery kdtree topics st query = Some (st1, out) \<longrightarrow>
      runQuery kdtree topics st1 query = Some (st1, out))"
proof (intro conjI impI allI)
  assume k: "0 \<le> numResults query"
  obtain ts where ts: "kNNTopics (numResults query) kdtree 0 (queryPosition query) [] = Some ts"
    using kNNTopics_total[OF k] by blast
  obtain qs cl where qs: "kNNQuestions topics (numResults query) kdtree 0
      (queryPosition query) ([], Map.empty) = Some (qs, cl)"
    using kNNQuestions_total[OF k] by (metis surj_pair)
  show "\<exists>st1 out. runQuery kdtree topics st query = Some (st1, out)"
    using ts qs by (simp add: runQuery_def)
next
  fix st1 out
  assume "runQuery kdtree topics st query = Some (st1, out)"
  then show "runQuery kdtree topics st1 query = Some (st1, out)"
    by (auto simp: runQuery_def split: if_splits option.splits)
qed

theorem query_idempotent_witness:
  "0 \<le> numResults \<lparr>queryType = CHR ''t'', numResults = 1, queryPosition = (0, 0)\<rparr> \<and>
   runQuery (Node \<lparr>tid = 1, questionIds = [], coordX = 0, coordY = 0\<rparr> Null Null) Map.empty
      \<lparr>topicSet = [], questionSet = [], closestQuestionTopic = Map.empty\<rparr>
      \<lparr>queryType = CHR ''t'', numResults = 1, queryPosition = (0, 0)\<rparr>
    = Some (\<lparr>topicSet = [\<lparr>tid = 1, questionIds = [], coordX = 0, coordY = 0\<rparr>],
             questionSet = [], closestQuestionTopic = Map.empty\<rparr>, Some [1]) \<and>
   runQuery (Node \<lparr>tid = 1, questionIds = [], coordX = 0, coordY = 0\<rparr> Null Null) Map.empty
      \<lparr>topicSet = [\<lparr>tid = 1, questionIds = [], coordX = 0, coordY = 0\<rparr>],
       questionSet = [], closestQuestionTopic = Map.empty\<rparr>
      \<lparr>queryType = CHR ''t'', numResults = 1, queryPosition = (0, 0)\<rparr>
    = Some (\<lparr>topicSet = [\<lparr>tid = 1, questionIds = [], coordX = 0, coordY = 0\<rparr>],
             questionSet = [], closestQuestionTopic = Map.empty\<rparr>, Some [1])"
  using query_idempotent
    [of "\<lparr>queryType = CHR ''t'', numResults = 1, queryPosition = (0, 0)\<rparr>"
        "Node \<lparr>tid = 1, questionIds = [], coordX = 0, coordY = 0\<rparr> Null Null" Map.empty
        "\<lparr>topicSet = [], questionSet = [], closestQuestionTopic = Map.empty\<rparr>"]
  by (simp add: runQuery_def eval_simps)

section \<open>The order of the result sets\<close>

lemma EPSILON_pos: "0 < EPSILON"
  by (simp add: EPSILON_def)





lemma keyLess_asym: "keyLess a b \<Longrightarrow> \<not> keyLess b a"
  using EPSILON_pos unfolding keyLess_def by (auto simp: abs_le_iff)


section \<open>Insertion into and erasure from an ordered set\<close>



lemma set_insert_not_Nil [simp]: "set_insert lt x xs \<noteq> []"
  by (cases xs) simp_all








section \<open>One node of a traversal\<close>

lemma kNNTopics_Node:
  "kNNTopics k (Node topic left right) depth qp s =
     (case trimTopics k (set_insert (topic_less qp) topic s) of
        None \<Rightarrow> None
      | Some trimmed \<Rightarrow>
         (case kNNTopics k (firstNode qp depth topic left right) (depth + 1) qp trimmed of
            None \<Rightarrow> None
          | Some afterFirst \<Rightarrow>
             if int (length afterFirst) < k \<or>
                (afterFirst \<noteq> [] \<and> planeDist qp depth topic < topicDist qp (last afterFirst))
             then kNNTopics k (secondNode qp depth topic left right) (depth + 1) qp afterFirst
             else Some afterFirst))"
  by (simp add: firstNode_def secondNode_def planeDist_def topicDist_def Let_def
        hypot_commute[of "fst qp"] split: option.splits)

lemma kNNQuestions_Node:
  "kNNQuestions topics k (Node topic left right) depth qp st =
     (case trimQuestions k (updateQuestions topics qp topic st) of
        None \<Rightarrow> None
      | Some trimmed \<Rightarrow>
         (case kNNQuestions topics k (firstNode qp depth topic left right) (depth + 1) qp trimmed of
            None \<Rightarrow> None
          | Some afterFirst \<Rightarrow>
             if int (length (fst afterFirst)) < k \<or>
                (fst afterFirst \<noteq> [] \<and>
                 planeDist qp depth topic
                   < topicDist qp (topicsAt topics
                       (closestAt (snd afterFirst) (last (fst afterFirst)))))
             then kNNQuestions topics k (secondNode qp depth topic left right) (depth + 1) qp afterFirst
             else Some afterFirst))"
  by (simp add: firstNode_def secondNode_def planeDist_def topicDist_def Let_def
        hypot_commute[of "fst qp"] split: option.splits)


text \<open>
  C6: at a visited node, once the node's topic is inserted and the set trimmed,
  and the near child has been traversed, the topic traversal enters the far child
  exactly when the set holds fewer than K elements, or it is non-empty and the
  perpendicular distance to the splitting plane is smaller than the distance of
  the worst-kept (last) topic; the question traversal does the same with the
  distance of the topic recorded for the worst-kept question.
\<close>

theorem far_child_rule:
  "kNNTopics k (Node topic left right) depth qp s =
     (case trimTopics k (set_insert (topic_less qp) topic s) of
        None \<Rightarrow> None
      | Some trimmed \<Rightarrow>
         (case kNNTopics k (firstNode qp depth topic left right) (depth + 1) qp trimmed of
            None \<Rightarrow> None
          | Some afterFirst \<Rightarrow>
             if int (length afterFirst) < k \<or>
                (afterFirst \<noteq> [] \<and> planeDist qp depth topic < topicDist qp (last afterFirst))
             then kNNTopics k (secondNode qp depth topic left right) (depth + 1) qp afterFirst
             else Some afterFirst)) \<and>
   kNNQuestions topics k (Node topic left right) depth qp st =
     (case trimQuestions k (updateQuestions topics qp topic st) of
        None \<Rightarrow> None
      | Some trimmed \<Rightarrow>
         (case kNNQuestions topics k (firstNode qp depth topic left right) (depth + 1) qp trimmed of
            None \<Rightarrow> None
          | Some afterFirst \<Rightarrow>
             if int (length (fst afterFirst)) < k \<or>
                (fst afterFirst \<noteq> [] \<and>
                 planeDist qp depth topic
                   < questionDist topics qp (snd afterFirst) (last (fst afterFirst)))
             then kNNQuestions topics k (secondNode qp depth topic left right) (depth + 1) qp afterFirst
             else Some afterFirst))"
proof (rule conjI)
  show "kNNTopics k (Node topic left right) depth qp s =
     (case trimTopics k (set_insert (topic_less qp) topic s) of
        None \<Rightarrow> None
      | Some trimmed \<Rightarrow>
         (case kNNTopics k (firstNode qp depth topic left right) (depth + 1) qp trimmed of
            None \<Rightarrow> None
          | Some afterFirst \<Rightarrow>
             if int (length afterFirst) < k \<or>
                (afterFirst \<noteq> [] \<and> planeDist qp depth topic < topicDist qp (last afterFirst))
             then kNNTopics k (secondNode qp depth topic left right) (depth + 1) qp afterFirst
             else Some afterFirst))"
    by (rule kNNTopics_Node)
  show "kNNQuestions topics k (Node topic left right) depth qp st =
     (case trimQuestions k (updateQuestions topics qp topic st) of
        None \<Rightarrow> None
      | Some trimmed \<Rightarrow>
         (case kNNQuestions topics k (firstNode qp depth topic left right) (depth + 1) qp trimmed of
            None \<Rightarrow> None
          | Some afterFirst \<Rightarrow>
             if int (length (fst afterFirst)) < k \<or>
                (fst afterFirst \<noteq> [] \<and>
                 planeDist qp depth topic
                   < questionDist topics qp (snd afterFirst) (last (fst afterFirst)))
             then kNNQuestions topics k (secondNode qp depth topic left right) (depth + 1) qp afterFirst
             else Some afterFirst))"
    unfolding questionDist_def registryDist_def by (rule kNNQuestions_Node)
qed

theorem far_child_rule_witness:
  "kNNTopics 1
     (Node \<lparr>tid = 1, questionIds = [], coordX = 2, coordY = 0\<rparr>
        (Node \<lparr>tid = 2, questionIds = [], coordX = 1, coordY = 0\<rparr> Null Null)
        (Node \<lparr>tid = 3, questionIds = [], coordX = 7, coordY = 0\<rparr> Null Null)) 0 (3, 0) []
   = Some [\<lparr>tid = 1, questionIds = [], coordX = 2, coordY = 0\<rparr>] \<and>
   kNNTopics 2
     (Node \<lparr>tid = 1, questionIds = [], coordX = 2, coordY = 0\<rparr>
        (Node \<lparr>tid = 2, questionIds = [], coordX = 1, coordY = 0\<rparr> Null Null)
        Null) 0 (3, 0) []
   = Some [\<lparr>tid = 1, questionIds = [], coordX = 2, coordY = 0\<rparr>,
           \<lparr>tid = 2, questionIds = [], coordX = 1, coordY = 0\<rparr>]"
  using far_child_rule
    [where k = 1 and topic = "\<lparr>tid = 1, questionIds = [], coordX = 2, coordY = 0\<rparr>"
       and left = "Node \<lparr>tid = 2, questionIds = [], coordX = 1, coordY = 0\<rparr> Null Null"
       and right = "Node \<lparr>tid = 3, questionIds = [], coordX = 7, coordY = 0\<rparr> Null Null"
       and depth = 0 and qp = "(3, 0)" and s = "[]"]
  by (simp add: eval_simps)

section \<open>Empty results\<close>

lemma kNNTopics_zero: "kNNTopics 0 n depth qp [] = Some []"
proof (induction n arbitrary: depth)
  case Null
  then show ?case by simp
next
  case (Node topic left right)
  have t: "trimTopics 0 [topic] = Some []"
    by (simp add: trimTopics_nonneg)
  have f: "kNNTopics 0 (firstNode qp depth topic left right) (Suc depth) qp [] = Some []"
    using Node.IH by (simp add: firstNode_def)
  show ?case
    by (subst kNNTopics_Node) (simp add: t f del: kNNTopics.simps)
qed

lemma kNNQuestions_zero: "\<exists>m'. kNNQuestions topics 0 n depth qp ([], m) = Some ([], m')"
proof (induction n arbitrary: depth m)
  case Null
  then show ?case by simp
next
  case (Node topic left right)
  obtain s1 m1 where u: "updateQuestions topics qp topic ([], m) = (s1, m1)"
    by (cases "updateQuestions topics qp topic ([], m)")
  obtain m2 where t: "trimQuestions 0 (updateQuestions topics qp topic ([], m)) = Some ([], m2)"
    using trimQuestions_nonneg[of 0 s1 m1] u by auto
  obtain m3 where f: "kNNQuestions topics 0 (firstNode qp depth topic left right) (Suc depth) qp ([], m2)
      = Some ([], m3)"
    using Node.IH(1)[of "Suc depth" m2] Node.IH(2)[of "Suc depth" m2]
    unfolding firstNode_def by (cases "queryAt qp (depth mod 2) < coordinateAt topic (depth mod 2)") auto
  show ?case
    by (subst kNNQuestions_Node) (simp add: t f del: kNNQuestions.simps)
qed

text \<open>
  C9: a topic or question query with K = 0, and a query of either type on an
  index without topics, returns (no undefined behaviour) and prints the empty
  line.
\<close>

theorem empty_results:
  assumes "queryType query = CHR ''t'' \<or> queryType query = CHR ''q''"
    and "numResults query = 0 \<or> kdtree = Null"
  shows "\<exists>st'. runQuery kdtree topics st query = Some (st', Some [])"
proof -
  have t: "kNNTopics (numResults query) kdtree 0 (queryPosition query) [] = Some []"
  proof (cases "kdtree = Null")
    case True
    then show ?thesis by simp
  next
    case False
    with assms(2) show ?thesis using kNNTopics_zero[of kdtree 0 "queryPosition query"] by simp
  qed
  have "\<exists>m. kNNQuestions topics (numResults query) kdtree 0 (queryPosition query) ([], Map.empty)
          = Some ([], m)"
  proof (cases "kdtree = Null")
    case True
    then show ?thesis by simp
  next
    case False
    with assms(2) show ?thesis
      using kNNQuestions_zero[of topics kdtree 0 "queryPosition query" Map.empty] by simp
  qed
  then obtain m where
    q: "kNNQuestions topics (numResults query) kdtree 0 (queryPosition query) ([], Map.empty)
          = Some ([], m)" by blast
  from assms(1) show ?thesis
    using t q by (auto simp: runQuery_def printSet_def)
qed

theorem empty_results_witness:
  "(queryType \<lparr>queryType = CHR ''q'', numResults = 0, queryPosition = (0, 0)\<rparr> = CHR ''t'' \<or>
    queryType \<lparr>queryType = CHR ''q'', numResults = 0, queryPosition = (0, 0)\<rparr> = CHR ''q'') \<and>
   (numResults \<lparr>queryType = CHR ''q'', numResults = 0, queryPosition = (0, 0)\<rparr> = 0 \<or>
    Node \<lparr>tid = 1, questionIds = [], coordX = 0, coordY = 0\<rparr> Null Null = Null) \<and>
   (\<exists>st'. runQuery (Node \<lparr>tid = 1, questionIds = [], coordX = 0, coordY = 0\<rparr> Null Null)
       [1 \<mapsto> \<lparr>tid = 1, questionIds = [10], coordX = 0, coordY = 0\<rparr>]
       \<lparr>topicSet = [], questionSet = [], closestQuestionTopic = Map.empty\<rparr>
       \<lparr>queryType = CHR ''q'', numResults = 0, queryPosition = (0, 0)\<rparr> = Some (st', Some []))"
  using empty_results
    [of "\<lparr>queryType = CHR ''q'', numResults = 0, queryPosition = (0, 0)\<rparr>"
        "Node \<lparr>tid = 1, questionIds = [], coordX = 0, coordY = 0\<rparr> Null Null"
        "[1 \<mapsto> \<lparr>tid = 1, questionIds = [10], coordX = 0, coordY = 0\<rparr>]"
        "\<lparr>topicSet = [], questionSet = [], closestQuestionTopic = Map.empty\<rparr>"]
  by simp

section \<open>Topic queries\<close>




lemma apartOn_insert2: "apartOn f C (insert a B) \<longleftrightarrow> apartOn f C {a} \<and> apartOn f C B"
  unfolding apartOn_def by blast

lemma apartOn_insert: "apartOn f (insert a B) C \<longleftrightarrow> apartOn f {a} C \<and> apartOn f B C"
  unfolding apartOn_def by blast













section \<open>Question queries\<close>





























section \<open>The closest associated topic\<close>






























section \<open>Comparison with the direct computation\<close>

text \<open>
  C1 fails on the code: two topics at (1, 0) with ids 1 and 2, K = 1, query at
  the origin.  The direct computation selects topic 2 (equal distances, larger
  id first).  The traversal keeps topic 1: topic 2 lies in the far child of the
  root, whose splitting plane is at distance 1, not smaller than the distance 1
  of the worst-kept topic.  The same index with question 10 on topic 1 and
  question 20 on topic 2 gives question 10 instead of 20.
\<close>

theorem brute_force_divergence:
  "kNNTopics 1
     (buildIndex [\<lparr>tid = 1, questionIds = [], coordX = 1, coordY = 0\<rparr>,
                  \<lparr>tid = 2, questionIds = [], coordX = 1, coordY = 0\<rparr>]) 0 (0, 0) []
     = Some [\<lparr>tid = 1, questionIds = [], coordX = 1, coordY = 0\<rparr>] \<and>
   bruteForceTopics (0, 0) 1
     [\<lparr>tid = 1, questionIds = [], coordX = 1, coordY = 0\<rparr>,
      \<lparr>tid = 2, questionIds = [], coordX = 1, coordY = 0\<rparr>]
     = [\<lparr>tid = 2, questionIds = [], coordX = 1, coordY = 0\<rparr>] \<and>
   map_option fst (kNNQuestions
     [1 \<mapsto> \<lparr>tid = 1, questionIds = [10], coordX = 1, coordY = 0\<rparr>,
      2 \<mapsto> \<lparr>tid = 2, questionIds = [20], coordX = 1, coordY = 0\<rparr>] 1
     (buildIndex [\<lparr>tid = 1, questionIds = [], coordX = 1, coordY = 0\<rparr>,
                  \<lparr>tid = 2, questionIds = [], coordX = 1, coordY = 0\<rparr>]) 0 (0, 0)
     ([], Map.empty)) = Some [10] \<and>
   bruteForceQuestions
     [1 \<mapsto> \<lparr>tid = 1, questionIds = [10], coordX = 1, coordY = 0\<rparr>,
      2 \<mapsto> \<lparr>tid = 2, questionIds = [20], coordX = 1, coordY = 0\<rparr>] (0, 0) 1
     [\<lparr>tid = 1, questionIds = [], coordX = 1, coordY = 0\<rparr>,
      \<lparr>tid = 2, questionIds = [], coordX = 1, coordY = 0\<rparr>] = [20]"
  by (simp add: eval_simps bruteForceTopics_def bruteForceQuestions_def)

text \<open>
  C5 fails on the code: topics 1, 3 and 5 at (1.0004, 0), (-1, 0) and
  (1.0005, 0), inserted in this order, K = 1, query at the origin.  After the
  root and its near (left) child, topic 3 at distance 1 is the worst-kept
  candidate, and the splitting plane of the root is at distance 1.0004, equal to
  it under the epsilon policy.  The far child holds topic 5 at distance 1.0005,
  which the comparator ranks before topic 3 (within \<open>EPSILON\<close>, larger id), and
  the direct computation selects it.  The code tests the raw values, 1.0004 < 1
  is false, the far child is not entered and topic 3 is returned; with questions
  10, 30 and 50 on the three topics the query returns 30 where the direct
  computation gives 50.  All distances are within \<open>EPSILON\<close> of each other, so
  the comparators are strict weak orders here.
\<close>

theorem pruning_misses_epsilon_tie:
  "kNNTopics 1
     (buildIndex [\<lparr>tid = 1, questionIds = [], coordX = 10004 / 10000, coordY = 0\<rparr>,
                  \<lparr>tid = 3, questionIds = [], coordX = - 1, coordY = 0\<rparr>,
                  \<lparr>tid = 5, questionIds = [], coordX = 10005 / 10000, coordY = 0\<rparr>]) 0 (0, 0) []
     = Some [\<lparr>tid = 3, questionIds = [], coordX = - 1, coordY = 0\<rparr>] \<and>
   \<bar>planeDist (0, 0) 0 \<lparr>tid = 1, questionIds = [], coordX = 10004 / 10000, coordY = 0\<rparr>
      - topicDist (0, 0) \<lparr>tid = 3, questionIds = [], coordX = - 1, coordY = 0\<rparr>\<bar> \<le> EPSILON \<and>
   topic_less (0, 0) \<lparr>tid = 5, questionIds = [], coordX = 10005 / 10000, coordY = 0\<rparr>
                     \<lparr>tid = 3, questionIds = [], coordX = - 1, coordY = 0\<rparr> \<and>
   bruteForceTopics (0, 0) 1
     [\<lparr>tid = 1, questionIds = [], coordX = 10004 / 10000, coordY = 0\<rparr>,
      \<lparr>tid = 3, questionIds = [], coordX = - 1, coordY = 0\<rparr>,
      \<lparr>tid = 5, questionIds = [], coordX = 10005 / 10000, coordY = 0\<rparr>]
     = [\<lparr>tid = 5, questionIds = [], coordX = 10005 / 10000, coordY = 0\<rparr>] \<and>
   map_option fst (kNNQuestions
     [1 \<mapsto> \<lparr>tid = 1, questionIds = [10], coordX = 10004 / 10000, coordY = 0\<rparr>,
      3 \<mapsto> \<lparr>tid = 3, questionIds = [30], coordX = - 1, coordY = 0\<rparr>,
      5 \<mapsto> \<lparr>tid = 5, questionIds = [50], coordX = 10005 / 10000, coordY = 0\<rparr>] 1
     (buildIndex [\<lparr>tid = 1, questionIds = [], coordX = 10004 / 10000, coordY = 0\<rparr>,
                  \<lparr>tid = 3, questionIds = [], coordX = - 1, coordY = 0\<rparr>,
                  \<lparr>tid = 5, questionIds = [], coordX = 10005 / 10000, coordY = 0\<rparr>]) 0 (0, 0)
     ([], Map.empty)) = Some [30] \<and>
   bruteForceQuestions
     [1 \<mapsto> \<lparr>tid = 1, questionIds = [10], coordX = 10004 / 10000, coordY = 0\<rparr>,
      3 \<mapsto> \<lparr>tid = 3, questionIds = [30], coordX = - 1, coordY = 0\<rparr>,
      5 \<mapsto> \<lparr>tid = 5, questionIds = [50], coordX = 10005 / 10000, coordY = 0\<rparr>] (0, 0) 1
     [\<lparr>tid = 1, questionIds = [], coordX = 10004 / 10000, coordY = 0\<rparr>,
      \<lparr>tid = 3, questionIds = [], coordX = - 1, coordY = 0\<rparr>,
      \<lparr>tid = 5, questionIds = [], coordX = 10005 / 10000, coordY = 0\<rparr>] = [50]"
  by (simp add: eval_simps bruteForceTopics_def bruteForceQuestions_def)

end
